theory Spec2Isabelle
  imports Main "HOL-Library.AList"
begin

section \<open>The CMake build system plugin of rez (rezplugins/build\_system/cmake.py)\<close>

text \<open>
  The plugin discovers the generators of the installed cmake by reading the text of
  \<^verbatim>\<open>cmake --help\<close>, assembles the command lines of the configure, build and install
  phases, and runs them one after the other through the resolved context's shell.
  Python exceptions are values of the type \<open>error\<close>; the class attributes that cache the
  discovery and the commands given to the shell are fields of an explicit state.
\<close>

subsection \<open>Python string operations used by the plugin\<close>

text \<open>\<^verbatim>\<open>s.startswith(p)\<close>\<close>

fun startswith :: "string \<Rightarrow> string \<Rightarrow> bool" where
  "startswith s [] = True"
| "startswith [] (p # ps) = False"
| "startswith (c # cs) (p # ps) = (c = p \<and> startswith cs ps)"

text \<open>\<^verbatim>\<open>s.split(sep)\<close> for a separator of one character: the pieces between the
  separators, one more than there are separators.\<close>

fun split :: "char \<Rightarrow> string \<Rightarrow> string list" where
  "split sep [] = [[]]"
| "split sep (c # cs) =
     (if c = sep then [] # split sep cs
      else (case split sep cs of
              [] \<Rightarrow> [[c]]
            | w # ws \<Rightarrow> (c # w) # ws))"

text \<open>\<^verbatim>\<open>s.replace(old, new)\<close> for a non-empty \<open>old\<close> (the plugin replaces
  \<^verbatim>\<open>"[arch]"\<close> and the backslash): every occurrence, found from the left, without
  overlap.\<close>

function replace :: "string \<Rightarrow> string \<Rightarrow> string \<Rightarrow> string" where
  "replace old new [] = []"
| "replace old new (c # cs) =
     (if old \<noteq> [] \<and> startswith (c # cs) old
      then new @ replace old new (drop (length old) (c # cs))
      else c # replace old new cs)"
  by pat_completeness auto
termination
  by (relation "measure (\<lambda>(old, new, s). length s)") auto

text \<open>\<^verbatim>\<open>s.strip(" ")\<close>: the character is removed from both ends.\<close>

definition strip :: "char \<Rightarrow> string \<Rightarrow> string" where
  "strip ch s = rev (dropWhile (\<lambda>c. c = ch) (rev (dropWhile (\<lambda>c. c = ch) s)))"

text \<open>\<^verbatim>\<open>"%d" % n\<close>: the decimal digits of an integer, with a minus sign when it is
  negative.\<close>

function str_nat :: "nat \<Rightarrow> string" where
  "str_nat n =
     (if n < 10 then [''0123456789'' ! n]
      else str_nat (n div 10) @ [''0123456789'' ! (n mod 10)])"
  by pat_completeness auto
termination
  by (relation "measure id") auto

declare str_nat.simps [simp del]

definition str_int :: "int \<Rightarrow> string" where
  "str_int i = (if i < 0 then ''-'' @ str_nat (nat (- i)) else str_nat (nat i))"

text \<open>\<^verbatim>\<open>os.path.join(a, b)\<close> of posixpath, for two components.\<close>

definition path_join :: "string \<Rightarrow> string \<Rightarrow> string" where
  "path_join a b =
     (if startswith b ''/'' then b
      else if a = [] \<or> last a = CHR ''/'' then a @ b
      else a @ ''/'' @ b)"

text \<open>The truth value of an optional string (\<^verbatim>\<open>None\<close> and \<^verbatim>\<open>""\<close> are false) and
  \<^verbatim>\<open>xs or []\<close> for an optional list.\<close>

fun truthy :: "string option \<Rightarrow> bool" where
  "truthy None = False"
| "truthy (Some s) = (s \<noteq> [])"

fun or_empty :: "'a list option \<Rightarrow> 'a list" where
  "or_empty None = []"
| "or_empty (Some xs) = xs"

text \<open>\<^verbatim>\<open>dict(pairs)\<close>: a key keeps the place of its first insertion and the value of its
  last one.\<close>

definition dict :: "('k \<times> 'v) list \<Rightarrow> ('k \<times> 'v) list" where
  "dict ps = fold (\<lambda>(k, v) d. AList.update k v d) ps []"

definition keys :: "('k \<times> 'v) list \<Rightarrow> 'k list" where
  "keys d = map fst d"

subsection \<open>Errors, settings and the collaborators of the plugin\<close>

text \<open>The exceptions the plugin can raise: its own \<^verbatim>\<open>RezCMakeError\<close> (a
  \<^verbatim>\<open>BuildSystemError\<close>), the \<^verbatim>\<open>KeyError\<close> of a dictionary lookup and the
  \<^verbatim>\<open>ValueError\<close> of unpacking a list of the wrong length.\<close>

datatype error = RezCMakeError string | KeyError string | ValueError string

text \<open>Modelled from the spec: \<^verbatim>\<open>rez.build_process_.BuildType\<close> is not among the
  sources. The plugin's docstring gives its two members, \<^verbatim>\<open>REZ_BUILD_TYPE\<close> being
  "one of 'local', 'central'"; the plugin reads \<^verbatim>\<open>build_type.name\<close> and compares with
  \<^verbatim>\<open>BuildType.central\<close>.\<close>

datatype BuildType = local | central

fun BuildType_name :: "BuildType \<Rightarrow> string" where
  "BuildType_name local = ''local''"
| "BuildType_name central = ''central''"

text \<open>The \<^verbatim>\<open>cmake\<close> table of rezconfig.py.\<close>

record settings =
  build_system :: "string option"
  build_target :: string
  cmake_args :: "string list option"
  cmake_binary :: "string option"
  make_binary :: "string option"
  install_pyc :: bool

definition rezconfig_cmake :: settings where
  "rezconfig_cmake =
     \<lparr>build_system = None,
      build_target = ''Release'',
      cmake_args = Some [''-Wno-dev'',
                         ''-DCMAKE_ECLIPSE_GENERATE_SOURCE_PROJECT=TRUE'',
                         ''-D_ECLIPSE_VERSION=4.3'',
                         ''--no-warn-unused-cli''],
      cmake_binary = None,
      make_binary = None,
      install_pyc = True\<rparr>"

text \<open>What the plugin reads from the process it runs in: the global \<^verbatim>\<open>config\<close>, the
  platform, \<^verbatim>\<open>which\<close>, the output of \<^verbatim>\<open>popen(cmd).communicate()\<close>, the key token of
  the shell (\<^verbatim>\<open>create_shell().get_key_token\<close>) and two functions of \<^verbatim>\<open>os.path\<close>.\<close>

record sys =
  config_cmake :: settings
  rez_1_cmake_variables :: bool
  disable_rez_1_compatibility :: bool
  platform_name :: string
  which :: "string \<Rightarrow> string option"
  popen_stdout :: "string list \<Rightarrow> string"
  get_key_token :: "string \<Rightarrow> string"
  abspath :: "string \<Rightarrow> string"
  realpath :: "string \<Rightarrow> string"

text \<open>What happens outside the plugin: a command run by \<^verbatim>\<open>context.execute_shell\<close> in a
  working directory, and the forwarding script written by
  \<^verbatim>\<open>create_forwarding_script\<close> (its path, then \<^verbatim>\<open>working_dir\<close>, \<^verbatim>\<open>build_path\<close>,
  \<^verbatim>\<open>variant_index\<close>, \<^verbatim>\<open>install\<close> and \<^verbatim>\<open>install_path\<close>).\<close>

datatype event =
  Exec "string list" string
| ForwardingScript string string string "nat option" bool string

text \<open>The state: the class attributes \<^verbatim>\<open>_build_systems\<close> and
  \<^verbatim>\<open>_default_build_system\<close> of \<^verbatim>\<open>CMakeBuildSystem\<close>, and the events so far.\<close>

record state =
  cls_build_systems :: "(string \<times> string) list option"
  cls_default_build_system :: "string option"
  events :: "event list"

text \<open>The resolved context of a build: what \<^verbatim>\<open>context.which("cmake", fallback=True)\<close>
  returns, and the exit code of \<^verbatim>\<open>context.execute_shell\<close> for a command and a working
  directory, which may depend on everything that happened before.\<close>

record resolved_context =
  context_which :: "string option"
  execute_shell :: "event list \<Rightarrow> string list \<Rightarrow> string \<Rightarrow> int"

subsection \<open>Finding cmake and discovering the generators\<close>

text \<open>\<^verbatim>\<open>CMakeBuildSystem._find_cmake\<close>\<close>

definition find_cmake :: "sys \<Rightarrow> resolved_context option \<Rightarrow> error + string" where
  "find_cmake s ctx =
     (let exe = (if truthy (cmake_binary (config_cmake s)) then cmake_binary (config_cmake s)
                 else (case ctx of
                         Some c \<Rightarrow> context_which c
                       | None \<Rightarrow> Some ''cmake''))
      in if \<not> truthy exe then Inl (RezCMakeError ''could not find cmake binary'')
         else (let found_exe = which s (the exe)
               in if \<not> truthy found_exe
                  then Inl (RezCMakeError (''cmake binary does not exist: '' @ the exe))
                  else Inr (the found_exe)))"

text \<open>Lines 83 to 91 of \<^verbatim>\<open>build_systems\<close>: what becomes of the text before the
  \<^verbatim>\<open>=\<close> of a line, and whether it carried the mark of the default generator.\<close>

definition parse_name :: "string \<Rightarrow> bool \<times> string" where
  "parse_name name =
     (let name = replace ''[arch]'' [] name;
          is_default = startswith name ''* '';
          name = (if is_default then drop 2 name else name);
          name = strip (CHR '' '') name
      in (is_default, name))"

text \<open>The loop of \<^verbatim>\<open>build_systems\<close> over the lines of the help text. It carries
  \<^verbatim>\<open>is_in_generators\<close>, \<^verbatim>\<open>generators\<close> and the class attribute
  \<^verbatim>\<open>_default_build_system\<close>, which keeps what the loop stored in it when a later line
  raises. \<^verbatim>\<open>name, _ = line.split("=")\<close> raises \<^verbatim>\<open>ValueError\<close> unless the line has
  exactly one \<^verbatim>\<open>=\<close>.\<close>

fun scan_lines ::
  "string list \<Rightarrow> bool \<Rightarrow> string list \<Rightarrow> string option \<Rightarrow> (error + string list) \<times> string option"
where
  "scan_lines [] is_in_generators generators dflt = (Inr generators, dflt)"
| "scan_lines (line # rest) is_in_generators generators dflt =
     (if is_in_generators then
        (if CHR ''='' \<in> set line then
           (case split (CHR ''='') line of
              [name, _] \<Rightarrow>
                (case parse_name name of
                   (is_default, name) \<Rightarrow>
                     scan_lines rest is_in_generators (generators @ [name])
                       (if is_default then Some name else dflt))
            | _ \<Rightarrow> (Inl (ValueError ''too many values to unpack''), dflt))
         else scan_lines rest is_in_generators generators dflt)
      else if startswith line ''Generators''
      then scan_lines rest True generators dflt
      else scan_lines rest is_in_generators generators dflt)"

text \<open>\<^verbatim>\<open>CMakeBuildSystem.build_systems\<close>: the cached dictionary when there is one;
  otherwise cmake is found without a context, its help text is read, and the dictionary
  of the names found (every name its own value) is cached.\<close>

definition build_systems :: "sys \<Rightarrow> state \<Rightarrow> (error + (string \<times> string) list) \<times> state" where
  "build_systems s st =
     (case cls_build_systems st of
        Some d \<Rightarrow> (Inr d, st)
      | None \<Rightarrow>
          (case find_cmake s None of
             Inl e \<Rightarrow> (Inl e, st)
           | Inr found_exe \<Rightarrow>
               (let stdout = popen_stdout s [found_exe, ''--help''];
                    (r, dflt) = scan_lines (split (CHR 0x0A) stdout) False []
                                  (cls_default_build_system st);
                    st = st\<lparr>cls_default_build_system := dflt\<rparr>
                in (case r of
                      Inl e \<Rightarrow> (Inl e, st)
                    | Inr generators \<Rightarrow>
                        (let d = dict (zip generators generators)
                         in (Inr d, st\<lparr>cls_build_systems := Some d\<rparr>))))))"

text \<open>\<^verbatim>\<open>CMakeBuildSystem.default_build_system\<close>\<close>

definition default_build_system :: "sys \<Rightarrow> state \<Rightarrow> (error + string option) \<times> state" where
  "default_build_system s st =
     (case build_systems s st of
        (Inl e, st') \<Rightarrow> (Inl e, st')
      | (Inr _, st') \<Rightarrow> (Inr (cls_default_build_system st'), st'))"

text \<open>\<^verbatim>\<open>CMakeBuildSystem.legacy_build_systems\<close>\<close>

definition legacy_build_systems :: "(string \<times> string) list" where
  "legacy_build_systems =
     [(''eclipse'', ''Eclipse CDT4 - Unix Makefiles''),
      (''codeblocks'', ''CodeBlocks - Unix Makefiles''),
      (''make'', ''Unix Makefiles''),
      (''nmake'', ''NMake Makefiles''),
      (''mingw'', ''MinGW Makefiles''),
      (''xcode'', ''Xcode'')]"

subsection \<open>The build: \<^verbatim>\<open>CMakeBuildSystem.build\<close>\<close>

text \<open>The fields of the \<^verbatim>\<open>CMakeBuildSystem\<close> object that \<^verbatim>\<open>build\<close> reads (\<open>self_settings\<close>
  is the cmake table of the package's config), and those of the variant.\<close>

record self =
  self_working_dir :: string
  self_settings :: settings
  self_build_target :: string
  self_cmake_build_system :: "string option"
  self_write_build_scripts :: bool
  self_verbose :: bool
  self_build_args :: "string list option"
  self_child_build_args :: "string list option"

record variant =
  variant_index :: "nat option"
  build_thread_count :: int

text \<open>The dictionary \<^verbatim>\<open>ret\<close> that \<^verbatim>\<open>build\<close> returns.\<close>

record ret =
  success :: bool
  build_env_script :: "string option"

text \<open>\<^verbatim>\<open>d[k]\<close> raises \<^verbatim>\<open>KeyError\<close> for a key that \<open>d\<close> does not have.\<close>

definition getitem :: "(string \<times> string) list \<Rightarrow> string \<Rightarrow> error + string" where
  "getitem d k = (case map_of d k of None \<Rightarrow> Inl (KeyError k) | Some v \<Rightarrow> Inr v)"

text \<open>Lines 195 to 200 of \<^verbatim>\<open>build\<close>: the generator of a selected name is its entry in
  the discovered dictionary when it is one of its keys, otherwise its entry in
  \<^verbatim>\<open>legacy_build_systems\<close>. \<^verbatim>\<open>build_systems()\<close> is called for the test and again for the
  lookup.\<close>

definition generator_of :: "sys \<Rightarrow> string \<Rightarrow> state \<Rightarrow> (error + string) \<times> state" where
  "generator_of s name st =
     (case build_systems s st of
        (Inl e, st1) \<Rightarrow> (Inl e, st1)
      | (Inr d, st1) \<Rightarrow>
          (if name \<notin> set (keys d) then (getitem legacy_build_systems name, st1)
           else (case build_systems s st1 of
                   (Inl e, st2) \<Rightarrow> (Inl e, st2)
                 | (Inr d2, st2) \<Rightarrow> (getitem d2 name, st2))))"

text \<open>Lines 184 to 209 of \<^verbatim>\<open>build\<close>, "assemble cmake command". Without a selected
  generator \<^verbatim>\<open>default_build_system()\<close> is still called, once for the test and once more
  for the message when there is a default; the message itself is only printed.\<close>

definition configure_cmd ::
  "sys \<Rightarrow> self \<Rightarrow> string \<Rightarrow> string \<Rightarrow> bool \<Rightarrow> BuildType \<Rightarrow> state \<Rightarrow> (error + string list) \<times> state"
where
  "configure_cmd s slf found_exe install_path install build_type st =
     (let cmd = [found_exe, ''-d'', self_working_dir slf];
          cmd = cmd @ or_empty (cmake_args (self_settings slf));
          cmd = cmd @ or_empty (self_build_args slf);
          cmd = cmd @ [''-DCMAKE_INSTALL_PREFIX='' @ install_path];
          cmd = cmd @ [''-DCMAKE_MODULE_PATH='' @
                        replace [CHR 0x5C] ''/'' (get_key_token s ''CMAKE_MODULE_PATH'')];
          cmd = cmd @ [''-DCMAKE_BUILD_TYPE='' @ self_build_target slf];
          cmd = cmd @ [''-DREZ_BUILD_TYPE='' @ BuildType_name build_type];
          cmd = cmd @ [''-DREZ_BUILD_INSTALL='' @ str_int (if install then 1 else 0)];
          compat = (if rez_1_cmake_variables s \<and> \<not> disable_rez_1_compatibility s
                       \<and> build_type = central
                    then [''-DCENTRAL=1''] else [])
      in if truthy (self_cmake_build_system slf) then
           (case generator_of s (the (self_cmake_build_system slf)) st of
              (Inl e, st1) \<Rightarrow> (Inl e, st1)
            | (Inr generator, st1) \<Rightarrow> (Inr (cmd @ [''-G'', generator] @ compat), st1))
         else
           (case default_build_system s st of
              (Inl e, st1) \<Rightarrow> (Inl e, st1)
            | (Inr d, st1) \<Rightarrow>
                (if truthy d then
                   (case default_build_system s st1 of
                      (Inl e, st2) \<Rightarrow> (Inl e, st2)
                    | (Inr _, st2) \<Rightarrow> (Inr (cmd @ compat), st2))
                 else (Inr (cmd @ compat), st1))))"

text \<open>Lines 253 to 271, "assemble make command": \<^verbatim>\<open>cmd\<close>.\<close>

definition make_cmd :: "self \<Rightarrow> variant \<Rightarrow> string \<Rightarrow> string \<Rightarrow> string list" where
  "make_cmd slf v found_exe build_path =
     (let mb = make_binary (self_settings slf);
          cmd = (if \<not> truthy mb then [found_exe, ''--build'', build_path]
                 else if the mb \<noteq> ''nmake'' then
                   [the mb] @
                   (if \<not> list_ex (\<lambda>x. startswith x ''-j'') (or_empty (self_child_build_args slf))
                    then [''-j'' @ str_int (build_thread_count v)]
                    else [])
                 else [])
      in cmd @ or_empty (self_child_build_args slf))"

text \<open>Lines 273 to 278: \<^verbatim>\<open>all_cmd\<close>, the command of the build phase.\<close>

definition all_cmd :: "sys \<Rightarrow> self \<Rightarrow> string list \<Rightarrow> string list" where
  "all_cmd s slf cmd =
     (if \<not> truthy (make_binary (self_settings slf)) then
        (if platform_name s = ''windows'' then cmd @ [''--target'', ''ALL_BUILD'']
         else cmd @ [''--target'', ''all''])
      else cmd)"

text \<open>Lines 288 to 290: \<^verbatim>\<open>cmd\<close> as the install phase runs it.\<close>

definition install_cmd :: "self \<Rightarrow> string list \<Rightarrow> string list" where
  "install_cmd slf cmd =
     (let cmd = (if \<not> truthy (make_binary (self_settings slf)) then cmd @ [''--target'']
                 else cmd)
      in cmd @ [''install''])"

text \<open>\<^verbatim>\<open>context.execute_shell(command=cmd, block=True, cwd=build_path, ...)\<close>: the exit code,
  and the state with the command recorded.\<close>

definition run_shell ::
  "resolved_context \<Rightarrow> string list \<Rightarrow> string \<Rightarrow> state \<Rightarrow> int \<times> state" where
  "run_shell ctx cmd cwd st =
     (execute_shell ctx (events st) cmd cwd, st\<lparr>events := events st @ [Exec cmd cwd]\<rparr>)"

text \<open>Lines 252 to 300: the build phase, then the install phase when the build succeeded,
  an install was asked for and \<^verbatim>\<open>"install"\<close> is not already an argument of \<^verbatim>\<open>cmd\<close>.\<close>

definition build_and_install ::
  "sys \<Rightarrow> self \<Rightarrow> resolved_context \<Rightarrow> variant \<Rightarrow> string \<Rightarrow> string \<Rightarrow> bool \<Rightarrow> state
     \<Rightarrow> ret \<times> state"
where
  "build_and_install s slf ctx v found_exe build_path install st =
     (let cmd = make_cmd slf v found_exe build_path;
          (retcode, st1) = run_shell ctx (all_cmd s slf cmd) build_path st
      in if retcode = 0 \<and> install \<and> ''install'' \<notin> set cmd then
           (let (retcode, st2) = run_shell ctx (install_cmd slf cmd) build_path st1
            in (\<lparr>success = (retcode = 0), build_env_script = None\<rparr>, st2))
         else (\<lparr>success = (retcode = 0), build_env_script = None\<rparr>, st1))"

text \<open>Lines 213 to 215: \<^verbatim>\<open>build_path\<close> is replaced only when \<^verbatim>\<open>os.path.abspath\<close> of it
  is the empty string.\<close>

definition build_dir :: "sys \<Rightarrow> self \<Rightarrow> string \<Rightarrow> string" where
  "build_dir s slf build_path =
     (if abspath s build_path = []
      then realpath s (path_join (self_working_dir slf) build_path)
      else build_path)"

text \<open>\<^verbatim>\<open>CMakeBuildSystem.build\<close>. The callback that sets the environment of each phase
  and the messages printed when \<^verbatim>\<open>verbose\<close> is set change neither the commands nor the
  result and are left out.\<close>

definition build ::
  "sys \<Rightarrow> self \<Rightarrow> resolved_context \<Rightarrow> variant \<Rightarrow> string \<Rightarrow> string \<Rightarrow> bool \<Rightarrow> BuildType
     \<Rightarrow> state \<Rightarrow> (error + ret) \<times> state"
where
  "build s slf ctx v build_path install_path install build_type st =
     (case find_cmake s (Some ctx) of
        Inl e \<Rightarrow> (Inl e, st)
      | Inr found_exe \<Rightarrow>
          (case configure_cmd s slf found_exe install_path install build_type st of
             (Inl e, st1) \<Rightarrow> (Inl e, st1)
           | (Inr cmd, st1) \<Rightarrow>
               (let build_path = build_dir s slf build_path;
                    (retcode, st2) = run_shell ctx cmd build_path st1
                in if retcode \<noteq> 0 then (Inr \<lparr>success = False, build_env_script = None\<rparr>, st2)
                   else if self_write_build_scripts slf then
                     (let script = path_join build_path ''build-env''
                      in (Inr \<lparr>success = True, build_env_script = Some script\<rparr>,
                          st2\<lparr>events := events st2 @
                                 [ForwardingScript script (self_working_dir slf) build_path
                                    (variant_index v) install install_path]\<rparr>))
                   else
                     (case build_and_install s slf ctx v found_exe build_path install st2 of
                        (r, st3) \<Rightarrow> (Inr r, st3)))))"

subsection \<open>A concrete installation\<close>

text \<open>A Linux host on which \<^verbatim>\<open>which\<close> finds cmake in \<^verbatim>\<open>/usr/bin\<close>, with the settings of
  rezconfig.py, whose \<^verbatim>\<open>cmake --help\<close> prints the given text.\<close>

definition host :: "string \<Rightarrow> sys" where
  "host help =
     \<lparr>config_cmake = rezconfig_cmake,
      rez_1_cmake_variables = False,
      disable_rez_1_compatibility = False,
      platform_name = ''linux'',
      which = (\<lambda>exe. if exe = ''cmake'' then Some ''/usr/bin/cmake'' else None),
      popen_stdout = (\<lambda>cmd. help),
      get_key_token = (\<lambda>key. ''${'' @ key @ ''}''),
      abspath = (\<lambda>p. if startswith p ''/'' then p else ''/home/dev/'' @ p),
      realpath = (\<lambda>p. p)\<rparr>"

definition help_text :: string where
  "help_text =
     ''Usage'' @ [CHR 0x0A] @
     ''Generators'' @ [CHR 0x0A] @
     ''* Unix Makefiles = Generates standard UNIX makefiles.'' @ [CHR 0x0A] @
     ''* Ninja = Generates ninja files.'' @ [CHR 0x0A] @
     ''Visual Studio 16 2019 [arch] = Generates VS project files.''"

definition help_text_two_equals :: string where
  "help_text_two_equals =
     ''Generators'' @ [CHR 0x0A] @
     ''  Ninja = Generates ninja files (default with -DFOO=1).''"

text \<open>A process that has not discovered the generators yet.\<close>

definition fresh :: state where
  "fresh = \<lparr>cls_build_systems = None, cls_default_build_system = None, events = []\<rparr>"

text \<open>A context whose \<open>n\<close>-th shell command exits with the \<open>n\<close>-th of the given codes,
  and with 0 when the codes are used up.\<close>

definition shell_with :: "int list \<Rightarrow> resolved_context" where
  "shell_with codes =
     \<lparr>context_which = Some ''cmake'',
      execute_shell = (\<lambda>evs cmd cwd. if length evs < length codes then codes ! length evs else 0)\<rparr>"

text \<open>A build system object for the package in \<^verbatim>\<open>/src\<close>, with
  \<^verbatim>\<open>cmake_args = ["-Wno-dev"]\<close>, and a variant built with four threads.\<close>

definition plugin :: self where
  "plugin =
     \<lparr>self_working_dir = ''/src'',
      self_settings = rezconfig_cmake\<lparr>cmake_args := Some [''-Wno-dev'']\<rparr>,
      self_build_target = ''Release'',
      self_cmake_build_system = None,
      self_write_build_scripts = False,
      self_verbose = False,
      self_build_args = None,
      self_child_build_args = None\<rparr>"

definition variant0 :: variant where
  "variant0 = \<lparr>variant_index = Some 0, build_thread_count = 4\<rparr>"

section \<open>Properties\<close>

subsection \<open>Discovery of the generators\<close>

text \<open>Once inside the generators, the loop over two texts in a row is the loop over the
  second one, started where the first one ended.\<close>

lemma scan_lines_append:
  "scan_lines (xs @ ys) True gens dflt =
     (case scan_lines xs True gens dflt of
        (Inl e, d) \<Rightarrow> (Inl e, d)
      | (Inr gs, d) \<Rightarrow> scan_lines ys True gs d)"
  by (induction xs arbitrary: gens dflt) (auto split: list.splits prod.splits)

lemma scan_lines_heading:
  "scan_lines (pre @ h # rest) ing gens dflt = (Inr gs, d) \<Longrightarrow> startswith h ''Generators'' \<Longrightarrow>
   \<exists>gens' dflt'. scan_lines rest True gens' dflt' = (Inr gs, d)"
proof (induction pre arbitrary: ing gens dflt)
  case Nil
  then show ?case by (auto split: if_splits list.splits prod.splits)
next
  case (Cons p pre)
  then show ?case by (auto split: if_splits list.splits prod.splits)
qed

lemma scan_lines_keeps:
  "scan_lines xs True gens dflt = (Inr gs, d) \<Longrightarrow> x \<in> set gens \<Longrightarrow> x \<in> set gs"
proof (induction xs arbitrary: gens dflt)
  case Nil
  then show ?case by simp
next
  case (Cons l xs)
  show ?case
  proof (cases "CHR ''='' \<in> set l")
    case False
    with Cons show ?thesis by simp
  next
    case True
    with Cons.prems(1) obtain r e where sp: "split (CHR ''='') l = [r, e]"
      by (auto split: list.splits)
    obtain b n where pn: "parse_name r = (b, n)" by (cases "parse_name r")
    from Cons.prems(1) True sp pn
    have "scan_lines xs True (gens @ [n]) (if b then Some n else dflt) = (Inr gs, d)"
      by simp
    from Cons.IH[OF this] Cons.prems(2) show ?thesis by simp
  qed
qed

lemma scan_lines_default_unchanged:
  "scan_lines ys True gens dflt = (Inr gs, d) \<Longrightarrow>
   (\<forall>y\<in>set ys. \<forall>r e. split (CHR ''='') y = [r, e] \<longrightarrow> \<not> fst (parse_name r)) \<Longrightarrow> d = dflt"
  by (induction ys arbitrary: gens dflt) (auto split: if_splits list.splits prod.splits)

lemma split_eq_mem: "split c l = [r, e] \<Longrightarrow> c \<in> set l"
  by (induction l arbitrary: r e) (auto split: if_splits list.splits)

lemma scan_lines_one:
  "split (CHR ''='') l = [r, e] \<Longrightarrow>
   scan_lines [l] True gens dflt =
     (Inr (gens @ [snd (parse_name r)]), if fst (parse_name r) then Some (snd (parse_name r)) else dflt)"
  using split_eq_mem[of "CHR ''=''" l r e] by (auto split: prod.splits)


lemma keys_fold_update:
  "set (keys (fold (\<lambda>(k, v) d. AList.update k v d) ps acc)) = fst ` set ps \<union> set (keys acc)"
proof (induction ps arbitrary: acc)
  case Nil
  then show ?case by simp
next
  case (Cons p ps)
  obtain k v where p: "p = (k, v)" by (cases p)
  have "set (keys (AList.update k v acc)) = insert k (set (keys acc))"
    by (simp add: keys_def dom_update)
  with Cons p show ?case by auto
qed

lemma keys_dict: "set (keys (dict ps)) = fst ` set ps"
  using keys_fold_update[of ps "[]"] by (simp add: dict_def keys_def)

lemma keys_dict_zip: "set (keys (dict (zip gs gs))) = set gs"
proof -
  have "fst ` set (zip gs gs) = set gs"
    by (induction gs) auto
  then show ?thesis by (simp add: keys_dict)
qed

lemma build_systems_fresh:
  assumes "cls_build_systems st = None"
    and "find_cmake s None = Inr exe"
    and "scan_lines (split (CHR 0x0A) (popen_stdout s [exe, ''--help''])) False []
           (cls_default_build_system st) = (r, dflt)"
  shows "build_systems s st =
           (case r of
              Inl e \<Rightarrow> (Inl e, st\<lparr>cls_default_build_system := dflt\<rparr>)
            | Inr gs \<Rightarrow> (Inr (dict (zip gs gs)),
                         st\<lparr>cls_default_build_system := dflt,
                            cls_build_systems := Some (dict (zip gs gs))\<rparr>))"
  using assms by (simp add: build_systems_def Let_def split: sum.splits)

text \<open>
  C1 (the code departs from the claim). The claim: for every help text, discovery never
  raises, also on lines after the heading that hold more than one \<^verbatim>\<open>=\<close>. The code
  unpacks \<^verbatim>\<open>line.split("=")\<close> into two names, so such a line raises \<^verbatim>\<open>ValueError\<close>:
  here on a help text whose generator line has a second \<^verbatim>\<open>=\<close> in its description.
\<close>

theorem discovery_raises_on_two_equals:
  "build_systems (host help_text_two_equals) fresh =
     (Inl (ValueError ''too many values to unpack''), fresh)"
  by code_simp

text \<open>
  C7. Discovery on well-formed lines. Take a help text with a heading line \<open>h\<close> and, after
  it, a line \<open>l\<close> with exactly one \<^verbatim>\<open>=\<close>, and let discovery return. Then the name
  parsed from \<open>l\<close> is a key of the catalog; when \<open>l\<close> carries the mark \<^verbatim>\<open>"* "\<close> and no
  later line does, that name is the default (the last marked line wins); the line
  \<^verbatim>\<open>* Ninja = Generates ninja files.\<close> is marked and parsed to \<^verbatim>\<open>Ninja\<close>; and the line
  \<^verbatim>\<open>Visual Studio 16 2019 [arch] = Generates VS project files.\<close> is parsed to exactly
  \<^verbatim>\<open>Visual Studio 16 2019\<close>.
\<close>

theorem discovery_parses_well_formed_lines:
  assumes cache: "cls_build_systems st = None"
    and exe: "find_cmake s None = Inr exe"
    and lns: "split (CHR 0x0A) (popen_stdout s [exe, ''--help'']) = pre @ [h] @ xs @ [l] @ ys"
    and h: "startswith h ''Generators''"
    and l: "split (CHR ''='') l = [raw, desc]"
    and ok: "build_systems s st = (Inr d, st')"
  shows "snd (parse_name raw) \<in> set (keys d)
       \<and> (fst (parse_name raw)
            \<and> (\<forall>y\<in>set ys. \<forall>r e. split (CHR ''='') y = [r, e] \<longrightarrow> \<not> fst (parse_name r))
          \<longrightarrow> cls_default_build_system st' = Some (snd (parse_name raw)))
       \<and> (l = ''* Ninja = Generates ninja files.'' \<longrightarrow> parse_name raw = (True, ''Ninja''))
       \<and> (l = ''Visual Studio 16 2019 [arch] = Generates VS project files.''
          \<longrightarrow> parse_name raw = (False, ''Visual Studio 16 2019''))"
proof -
  obtain r dflt where sc:
    "scan_lines (pre @ h # (xs @ [l] @ ys)) False [] (cls_default_build_system st) = (r, dflt)"
    by (cases "scan_lines (pre @ h # (xs @ [l] @ ys)) False [] (cls_default_build_system st)")
  with lns have sc': "scan_lines (split (CHR 0x0A) (popen_stdout s [exe, ''--help''])) False []
           (cls_default_build_system st) = (r, dflt)" by simp
  from build_systems_fresh[OF cache exe sc'] ok obtain gs where
    r: "r = Inr gs" and d: "d = dict (zip gs gs)" and st': "cls_default_build_system st' = dflt"
    by (cases r) auto
  from scan_lines_heading[OF sc[unfolded r] h] obtain g0 d0 where
    "scan_lines (xs @ [l] @ ys) True g0 d0 = (Inr gs, dflt)" by blast
  then obtain g1 d1 where a: "scan_lines xs True g0 d0 = (Inr g1, d1)"
    and b: "scan_lines ([l] @ ys) True g1 d1 = (Inr gs, dflt)"
    by (auto simp: scan_lines_append[of xs] split: prod.splits sum.splits)
  let ?n = "snd (parse_name raw)"
  let ?d2 = "if fst (parse_name raw) then Some ?n else d1"
  have one: "scan_lines [l] True g1 d1 = (Inr (g1 @ [?n]), ?d2)"
    by (rule scan_lines_one[OF l])
  have "scan_lines ([l] @ ys) True g1 d1 =
          (case scan_lines [l] True g1 d1 of
             (Inl e, d) \<Rightarrow> (Inl e, d)
           | (Inr gs, d) \<Rightarrow> scan_lines ys True gs d)"
    by (rule scan_lines_append)
  also have "\<dots> = scan_lines ys True (g1 @ [?n]) ?d2"
    unfolding one by simp
  finally have c: "scan_lines ys True (g1 @ [?n]) ?d2 = (Inr gs, dflt)"
    using b by simp
  have mem: "?n \<in> set (keys d)"
    using scan_lines_keeps[OF c, of ?n] by (simp add: d keys_dict_zip)
  have dflt: "cls_default_build_system st' = Some ?n"
    if "fst (parse_name raw)"
      and "\<forall>y\<in>set ys. \<forall>r e. split (CHR ''='') y = [r, e] \<longrightarrow> \<not> fst (parse_name r)"
    using scan_lines_default_unchanged[OF c that(2)] that(1) st' by simp
  have ninja: "parse_name raw = (True, ''Ninja'')" if "l = ''* Ninja = Generates ninja files.''"
  proof -
    from l that have "raw = ''* Ninja ''" by simp
    then show ?thesis by (simp add: parse_name_def strip_def)
  qed
  have vs: "parse_name raw = (False, ''Visual Studio 16 2019'')"
    if "l = ''Visual Studio 16 2019 [arch] = Generates VS project files.''"
  proof -
    from l that have "raw = ''Visual Studio 16 2019 [arch] ''" by simp
    then show ?thesis by (simp add: parse_name_def strip_def)
  qed
  from mem dflt ninja vs show ?thesis by blast
qed

theorem discovery_parses_well_formed_lines_witness:
  "fst (build_systems (host help_text) fresh) =
     Inr [(''Unix Makefiles'', ''Unix Makefiles''), (''Ninja'', ''Ninja''),
          (''Visual Studio 16 2019'', ''Visual Studio 16 2019'')]
   \<and> ''Ninja'' \<in> set (keys [(''Unix Makefiles'', ''Unix Makefiles''), (''Ninja'', ''Ninja''),
                              (''Visual Studio 16 2019'', ''Visual Studio 16 2019'')])
   \<and> cls_default_build_system (snd (build_systems (host help_text) fresh)) = Some ''Ninja''"
proof -
  let ?d = "[(''Unix Makefiles'', ''Unix Makefiles''), (''Ninja'', ''Ninja''),
             (''Visual Studio 16 2019'', ''Visual Studio 16 2019'')]"
  let ?vs = "''Visual Studio 16 2019 [arch] = Generates VS project files.''"
  have cache: "cls_build_systems fresh = None"
    by (simp add: fresh_def)
  have exe: "find_cmake (host help_text) None = Inr ''/usr/bin/cmake''"
    by code_simp
  have lns: "split (CHR 0x0A) (popen_stdout (host help_text) [''/usr/bin/cmake'', ''--help'']) =
               [''Usage''] @ [''Generators''] @
               [''* Unix Makefiles = Generates standard UNIX makefiles.''] @
               [''* Ninja = Generates ninja files.''] @ [?vs]"
    by code_simp
  have h: "startswith ''Generators'' ''Generators''"
    by simp
  have l: "split (CHR ''='') ''* Ninja = Generates ninja files.'' =
             [''* Ninja '', '' Generates ninja files.'']"
    by simp
  have res: "fst (build_systems (host help_text) fresh) = Inr ?d"
    by code_simp
  then have ok: "build_systems (host help_text) fresh =
                   (Inr ?d, snd (build_systems (host help_text) fresh))"
    by (simp add: prod_eq_iff)
  have later: "\<forall>y\<in>set [?vs]. \<forall>r e. split (CHR ''='') y = [r, e] \<longrightarrow> \<not> fst (parse_name r)"
    by (simp add: parse_name_def)
  from discovery_parses_well_formed_lines[OF cache exe lns h l ok] later
  have "snd (parse_name ''* Ninja '') \<in> set (keys ?d)"
    and "cls_default_build_system (snd (build_systems (host help_text) fresh)) =
           Some (snd (parse_name ''* Ninja ''))"
    and "parse_name ''* Ninja '' = (True, ''Ninja'')"
    by (simp_all add: keys_def)
  with res show ?thesis by (simp add: keys_def)
qed

text \<open>Apart from not finding cmake, the second \<^verbatim>\<open>=\<close> is the only way discovery raises:
  the loop returns on every text whose lines hold at most one \<^verbatim>\<open>=\<close> each.\<close>

lemma split_not_Nil: "split c l \<noteq> []"
  by (induction l) (auto split: list.splits)

lemma split_two_pieces: "c \<in> set l \<Longrightarrow> 2 \<le> length (split c l)"
  using split_not_Nil[of c] by (induction l) (auto split: list.splits simp: Suc_le_eq)

lemma scan_lines_returns:
  assumes "\<forall>l\<in>set ls. length (split (CHR ''='') l) \<le> 2"
  shows "\<exists>gs d. scan_lines ls ing gens dflt = (Inr gs, d)"
  using assms
proof (induction ls arbitrary: ing gens dflt)
  case Nil
  then show ?case by simp
next
  case (Cons l ls)
  show ?case
  proof (cases "ing \<and> CHR ''='' \<in> set l")
    case False
    with Cons show ?thesis by auto
  next
    case True
    with split_two_pieces[of "CHR ''=''" l] Cons.prems
    have "length (split (CHR ''='') l) = 2" by simp
    then obtain r e where sp: "split (CHR ''='') l = [r, e]"
      by (auto simp: length_Suc_conv numeral_2_eq_2)
    obtain b n where pn: "parse_name r = (b, n)" by (cases "parse_name r")
    from Cons.prems have "\<forall>l\<in>set ls. length (split (CHR ''='') l) \<le> 2" by simp
    from Cons.IH[OF this, of True "gens @ [n]" "if b then Some n else dflt"] True sp pn
    show ?thesis by simp
  qed
qed

subsection \<open>The build: what every path shares\<close>

text \<open>Discovery, the default and the lookup of a generator change the cached class
  attributes only: they run no command.\<close>

lemma build_systems_events: "events (snd (build_systems s st)) = events st"
  by (simp add: build_systems_def Let_def split: option.splits sum.splits prod.splits)

lemma build_systems_cached:
  "build_systems s st = (Inr d, st1) \<Longrightarrow> build_systems s st1 = (Inr d, st1)"
  by (auto simp: build_systems_def Let_def split: option.splits sum.splits prod.splits)

lemma default_build_system_events: "events (snd (default_build_system s st)) = events st"
  using build_systems_events[of s st]
  by (auto simp: default_build_system_def split: prod.splits sum.splits)

lemma generator_of_events: "events (snd (generator_of s name st)) = events st"
proof (cases "build_systems s st")
  case (Pair r st1)
  with build_systems_events[of s st] have e1: "events st1 = events st" by simp
  show ?thesis
  proof (cases r)
    case (Inl e)
    with Pair e1 show ?thesis by (simp add: generator_of_def)
  next
    case (Inr d)
    with Pair have "build_systems s st1 = (Inr d, st1)" by (simp add: build_systems_cached)
    with Pair Inr e1 show ?thesis by (simp add: generator_of_def)
  qed
qed

lemma configure_cmd_events:
  "events (snd (configure_cmd s slf exe install_path install build_type st)) = events st"
proof (cases "truthy (self_cmake_build_system slf)")
  case True
  with generator_of_events[of s "the (self_cmake_build_system slf)" st] show ?thesis
    by (auto simp: configure_cmd_def Let_def split: prod.splits sum.splits)
next
  case False
  obtain r st1 where d1: "default_build_system s st = (r, st1)"
    by (cases "default_build_system s st")
  with default_build_system_events[of s st] have e1: "events st1 = events st" by simp
  obtain r2 st2 where d2: "default_build_system s st1 = (r2, st2)"
    by (cases "default_build_system s st1")
  with default_build_system_events[of s st1] e1 have e2: "events st2 = events st" by simp
  from False d1 d2 e1 e2 show ?thesis
    by (auto simp: configure_cmd_def Let_def split: prod.splits sum.splits)
qed

lemma generator_of_lookup:
  assumes "build_systems s st = (Inr d, st1)"
  shows "generator_of s name st =
           (getitem (if name \<in> set (keys d) then d else legacy_build_systems) name, st1)"
  using assms build_systems_cached[OF assms] by (simp add: generator_of_def)

lemma getitem_missing: "k \<notin> set (keys d) \<Longrightarrow> getitem d k = Inl (KeyError k)"
  by (simp add: getitem_def keys_def map_of_eq_None_iff[THEN iffD2])

text \<open>Replacing one character by another is a \<open>map\<close>; the install flag is one digit.\<close>

lemma replace_char:
  "replace [b] [c] t = map (\<lambda>x. if x = b then c else x) t"
  by (induction t) auto

lemma str_int_flag: "str_int (if install then 1 else 0) = (if install then ''1'' else ''0'')"
  by (simp add: str_int_def str_nat.simps)

text \<open>The configure command, whenever its assembly returns.\<close>

lemma configure_cmd_result:
  assumes "configure_cmd s slf exe install_path install build_type st = (Inr cmd, st1)"
  shows "cmd =
      [exe, ''-d'', self_working_dir slf]
      @ or_empty (cmake_args (self_settings slf))
      @ or_empty (self_build_args slf)
      @ [''-DCMAKE_INSTALL_PREFIX='' @ install_path,
         ''-DCMAKE_MODULE_PATH='' @
           map (\<lambda>c. if c = CHR 0x5C then CHR ''/'' else c) (get_key_token s ''CMAKE_MODULE_PATH''),
         ''-DCMAKE_BUILD_TYPE='' @ self_build_target slf,
         ''-DREZ_BUILD_TYPE='' @ BuildType_name build_type,
         ''-DREZ_BUILD_INSTALL='' @ (if install then ''1'' else ''0'')]
      @ (if truthy (self_cmake_build_system slf)
         then (case fst (generator_of s (the (self_cmake_build_system slf)) st) of
                 Inl e \<Rightarrow> []
               | Inr generator \<Rightarrow> [''-G'', generator])
         else [])
      @ (if rez_1_cmake_variables s \<and> \<not> disable_rez_1_compatibility s \<and> build_type = central
         then [''-DCENTRAL=1''] else [])"
proof -
  have r: "replace [CHR 0x5C] ''/'' (get_key_token s ''CMAKE_MODULE_PATH'') =
        map (\<lambda>c. if c = CHR 0x5C then CHR ''/'' else c) (get_key_token s ''CMAKE_MODULE_PATH'')"
    by (rule replace_char)
  show ?thesis
  proof (cases "truthy (self_cmake_build_system slf)")
    case True
    with assms show ?thesis
      unfolding configure_cmd_def Let_def r str_int_flag
      by (auto split: prod.splits sum.splits)
  next
    case False
    with assms show ?thesis
      unfolding configure_cmd_def Let_def r str_int_flag
      by (auto split: prod.splits sum.splits if_splits)
  qed
qed

text \<open>\<^verbatim>\<open>build\<close> once cmake is found and the configure command assembled.\<close>

lemma build_after_configure:
  assumes "find_cmake s (Some ctx) = Inr exe"
    and "configure_cmd s slf exe install_path install build_type st = (Inr cmd, st1)"
  shows "events st1 = events st"
    and "build s slf ctx v build_path install_path install build_type st =
      (let bd = build_dir s slf build_path;
           st2 = st1\<lparr>events := events st @ [Exec cmd bd]\<rparr>
       in if execute_shell ctx (events st) cmd bd \<noteq> 0
          then (Inr \<lparr>success = False, build_env_script = None\<rparr>, st2)
          else if self_write_build_scripts slf
          then (Inr \<lparr>success = True, build_env_script = Some (path_join bd ''build-env'')\<rparr>,
                st2\<lparr>events := events st2 @
                       [ForwardingScript (path_join bd ''build-env'') (self_working_dir slf) bd
                          (variant_index v) install install_path]\<rparr>)
          else (case build_and_install s slf ctx v exe bd install st2 of
                  (r, st3) \<Rightarrow> (Inr r, st3)))"
proof -
  from configure_cmd_events[of s slf exe install_path install build_type st] assms(2)
  show e: "events st1 = events st" by simp
  from assms e show "build s slf ctx v build_path install_path install build_type st =
      (let bd = build_dir s slf build_path;
           st2 = st1\<lparr>events := events st @ [Exec cmd bd]\<rparr>
       in if execute_shell ctx (events st) cmd bd \<noteq> 0
          then (Inr \<lparr>success = False, build_env_script = None\<rparr>, st2)
          else if self_write_build_scripts slf
          then (Inr \<lparr>success = True, build_env_script = Some (path_join bd ''build-env'')\<rparr>,
                st2\<lparr>events := events st2 @
                       [ForwardingScript (path_join bd ''build-env'') (self_working_dir slf) bd
                          (variant_index v) install install_path]\<rparr>)
          else (case build_and_install s slf ctx v exe bd install st2 of
                  (r, st3) \<Rightarrow> (Inr r, st3)))"
    by (simp add: build_def run_shell_def Let_def)
qed

subsection \<open>The claims about the build\<close>

text \<open>
  C2. When cmake is found, the configure command is assembled and its process exits with
  a code other than 0, \<^verbatim>\<open>build\<close> returns (it does not raise) a result whose
  \<^verbatim>\<open>success\<close> is false, and the configure command is the only event it adds: no build
  and no install command is run.
\<close>

theorem configure_failure_stops_build:
  assumes "find_cmake s (Some ctx) = Inr exe"
    and "configure_cmd s slf exe install_path install build_type st = (Inr cmd, st1)"
    and "execute_shell ctx (events st) cmd (build_dir s slf build_path) \<noteq> 0"
  shows "build s slf ctx v build_path install_path install build_type st =
           (Inr \<lparr>success = False, build_env_script = None\<rparr>,
            st1\<lparr>events := events st @ [Exec cmd (build_dir s slf build_path)]\<rparr>)"
  using assms(3) by (simp add: build_after_configure(2)[OF assms(1,2)] Let_def)

theorem configure_failure_stops_build_witness:
  "fst (build (host help_text) plugin (shell_with [1]) variant0 ''build'' ''/a/b'' True local fresh)
     = Inr \<lparr>success = False, build_env_script = None\<rparr>
   \<and> events (snd (build (host help_text) plugin (shell_with [1]) variant0 ''build'' ''/a/b'' True
                    local fresh))
     = [Exec [''/usr/bin/cmake'', ''-d'', ''/src'', ''-Wno-dev'', ''-DCMAKE_INSTALL_PREFIX=/a/b'',
              ''-DCMAKE_MODULE_PATH=${CMAKE_MODULE_PATH}'', ''-DCMAKE_BUILD_TYPE=Release'',
              ''-DREZ_BUILD_TYPE=local'', ''-DREZ_BUILD_INSTALL=1''] ''build'']"
proof -
  let ?cmd = "[''/usr/bin/cmake'', ''-d'', ''/src'', ''-Wno-dev'', ''-DCMAKE_INSTALL_PREFIX=/a/b'',
              ''-DCMAKE_MODULE_PATH=${CMAKE_MODULE_PATH}'', ''-DCMAKE_BUILD_TYPE=Release'',
              ''-DREZ_BUILD_TYPE=local'', ''-DREZ_BUILD_INSTALL=1'']"
  let ?c = "configure_cmd (host help_text) plugin ''/usr/bin/cmake'' ''/a/b'' True local fresh"
  have f: "find_cmake (host help_text) (Some (shell_with [1])) = Inr ''/usr/bin/cmake''"
    by code_simp
  have "fst ?c = Inr ?cmd"
    by code_simp
  then have c: "?c = (Inr ?cmd, snd ?c)"
    by (simp add: prod_eq_iff)
  have bd: "build_dir (host help_text) plugin ''build'' = ''build''"
    by code_simp
  have r: "execute_shell (shell_with [1]) (events fresh) ?cmd
             (build_dir (host help_text) plugin ''build'') \<noteq> 0"
    by (simp add: shell_with_def fresh_def)
  from configure_failure_stops_build[OF f c r, of variant0] show ?thesis
    by (simp add: bd fresh_def)
qed

text \<open>
  C3. Whenever the assembly of the configure command returns, the command is, in this
  order: the tool path; \<^verbatim>\<open>-d\<close> and the working directory; \<^verbatim>\<open>cmake_args\<close> of the
  settings; the extra build args; the install prefix define; the module path define, the
  backslashes of the shell's token turned into forward slashes; the build type define
  from the build target; the \<^verbatim>\<open>REZ_BUILD_TYPE\<close> define; the \<^verbatim>\<open>REZ_BUILD_INSTALL\<close> define,
  0 or 1; \<^verbatim>\<open>-G\<close> and the generator, only when one is selected; \<^verbatim>\<open>-DCENTRAL=1\<close>, only
  under the compatibility condition. The witness is the example of the claim:
  \<^verbatim>\<open>cmake_args = ["-Wno-dev"]\<close>, install path \<^verbatim>\<open>/a/b\<close>, build target \<^verbatim>\<open>Release\<close>.
\<close>

theorem configure_command_order:
  assumes "configure_cmd s slf exe install_path install build_type st = (Inr cmd, st1)"
  shows "cmd =
      [exe, ''-d'', self_working_dir slf]
      @ or_empty (cmake_args (self_settings slf))
      @ or_empty (self_build_args slf)
      @ [''-DCMAKE_INSTALL_PREFIX='' @ install_path,
         ''-DCMAKE_MODULE_PATH='' @
           map (\<lambda>c. if c = CHR 0x5C then CHR ''/'' else c) (get_key_token s ''CMAKE_MODULE_PATH''),
         ''-DCMAKE_BUILD_TYPE='' @ self_build_target slf,
         ''-DREZ_BUILD_TYPE='' @ BuildType_name build_type,
         ''-DREZ_BUILD_INSTALL='' @ (if install then ''1'' else ''0'')]
      @ (if truthy (self_cmake_build_system slf)
         then (case fst (generator_of s (the (self_cmake_build_system slf)) st) of
                 Inl e \<Rightarrow> []
               | Inr generator \<Rightarrow> [''-G'', generator])
         else [])
      @ (if rez_1_cmake_variables s \<and> \<not> disable_rez_1_compatibility s \<and> build_type = central
         then [''-DCENTRAL=1''] else [])"
  using assms by (rule configure_cmd_result)

theorem configure_command_order_witness:
  "fst (configure_cmd (host help_text) plugin ''/usr/bin/cmake'' ''/a/b'' False local fresh) =
     Inr [''/usr/bin/cmake'', ''-d'', ''/src'', ''-Wno-dev'', ''-DCMAKE_INSTALL_PREFIX=/a/b'',
          ''-DCMAKE_MODULE_PATH=${CMAKE_MODULE_PATH}'', ''-DCMAKE_BUILD_TYPE=Release'',
          ''-DREZ_BUILD_TYPE=local'', ''-DREZ_BUILD_INSTALL=0'']
   \<and> fst (configure_cmd (host help_text) (plugin\<lparr>self_cmake_build_system := Some ''make''\<rparr>)
          ''/usr/bin/cmake'' ''/a/b'' True central fresh) =
     Inr [''/usr/bin/cmake'', ''-d'', ''/src'', ''-Wno-dev'', ''-DCMAKE_INSTALL_PREFIX=/a/b'',
          ''-DCMAKE_MODULE_PATH=${CMAKE_MODULE_PATH}'', ''-DCMAKE_BUILD_TYPE=Release'',
          ''-DREZ_BUILD_TYPE=central'', ''-DREZ_BUILD_INSTALL=1'', ''-G'', ''Unix Makefiles'']"
proof -
  let ?c = "configure_cmd (host help_text) plugin ''/usr/bin/cmake'' ''/a/b'' False local fresh"
  let ?p = "plugin\<lparr>self_cmake_build_system := Some ''make''\<rparr>"
  let ?c2 = "configure_cmd (host help_text) ?p ''/usr/bin/cmake'' ''/a/b'' True central fresh"
  have "\<not> isl (fst ?c)"
    by code_simp
  then have c: "?c = (Inr (projr (fst ?c)), snd ?c)"
    by (cases "fst ?c") (simp_all add: prod_eq_iff)
  have "\<not> isl (fst ?c2)"
    by code_simp
  then have c2: "?c2 = (Inr (projr (fst ?c2)), snd ?c2)"
    by (cases "fst ?c2") (simp_all add: prod_eq_iff)
  have g: "fst (generator_of (host help_text) ''make'' fresh) = Inr ''Unix Makefiles''"
    by code_simp
  have hst: "get_key_token (host help_text) ''CMAKE_MODULE_PATH'' = ''${CMAKE_MODULE_PATH}''"
    "\<not> rez_1_cmake_variables (host help_text)"
    by (simp_all add: host_def)
  have "projr (fst ?c) =
     [''/usr/bin/cmake'', ''-d'', ''/src'', ''-Wno-dev'', ''-DCMAKE_INSTALL_PREFIX=/a/b'',
      ''-DCMAKE_MODULE_PATH=${CMAKE_MODULE_PATH}'', ''-DCMAKE_BUILD_TYPE=Release'',
      ''-DREZ_BUILD_TYPE=local'', ''-DREZ_BUILD_INSTALL=0'']"
    by (subst configure_command_order[OF c]) (simp add: hst plugin_def rezconfig_cmake_def)
  moreover have "projr (fst ?c2) =
     [''/usr/bin/cmake'', ''-d'', ''/src'', ''-Wno-dev'', ''-DCMAKE_INSTALL_PREFIX=/a/b'',
      ''-DCMAKE_MODULE_PATH=${CMAKE_MODULE_PATH}'', ''-DCMAKE_BUILD_TYPE=Release'',
      ''-DREZ_BUILD_TYPE=central'', ''-DREZ_BUILD_INSTALL=1'', ''-G'', ''Unix Makefiles'']"
    by (subst configure_command_order[OF c2]) (simp add: g hst plugin_def rezconfig_cmake_def)
  ultimately show ?thesis
    using c c2 by (metis fst_conv)
qed

text \<open>
  C4 (the code departs from the claim). The claim: a selected name that is neither a key
  of the discovered catalog nor a key of the legacy table fails with a structured error
  of the plugin, before any phase. The code fails before any phase, but through the
  unguarded lookup \<^verbatim>\<open>legacy_build_systems[name]\<close>: when cmake is found and discovery
  returns, such a name (not empty, since an empty name selects nothing) ends in a bare
  \<^verbatim>\<open>KeyError\<close>, not in the \<^verbatim>\<open>RezCMakeError\<close> that the other configuration failures
  raise, and no event is added.
\<close>

theorem unknown_generator_raises_key_error:
  assumes "find_cmake s (Some ctx) = Inr exe"
    and "self_cmake_build_system slf = Some name"
    and "name \<noteq> []"
    and "build_systems s st = (Inr d, st1)"
    and "name \<notin> set (keys d)"
    and "name \<notin> set (keys legacy_build_systems)"
  shows "build s slf ctx v build_path install_path install build_type st =
           (Inl (KeyError name), st1)
       \<and> events st1 = events st"
proof -
  from assms(4,5,6) have "generator_of s name st = (Inl (KeyError name), st1)"
    by (simp add: generator_of_def getitem_missing)
  with assms(2,3)
  have "configure_cmd s slf exe install_path install build_type st = (Inl (KeyError name), st1)"
    by (simp add: configure_cmd_def Let_def)
  with assms(1) have "build s slf ctx v build_path install_path install build_type st =
           (Inl (KeyError name), st1)"
    by (simp add: build_def)
  moreover from build_systems_events[of s st] assms(4) have "events st1 = events st" by simp
  ultimately show ?thesis by simp
qed

theorem unknown_generator_raises_key_error_witness:
  "fst (build (host help_text) (plugin\<lparr>self_cmake_build_system := Some ''foo''\<rparr>)
          (shell_with []) variant0 ''/tmp/build'' ''/a/b'' True local fresh)
     = Inl (KeyError ''foo'')
   \<and> events (snd (build (host help_text) (plugin\<lparr>self_cmake_build_system := Some ''foo''\<rparr>)
                    (shell_with []) variant0 ''/tmp/build'' ''/a/b'' True local fresh)) = []"
proof -
  let ?p = "plugin\<lparr>self_cmake_build_system := Some ''foo''\<rparr>"
  let ?d = "[(''Unix Makefiles'', ''Unix Makefiles''), (''Ninja'', ''Ninja''),
             (''Visual Studio 16 2019'', ''Visual Studio 16 2019'')]"
  let ?b = "build_systems (host help_text) fresh"
  have f: "find_cmake (host help_text) (Some (shell_with [])) = Inr ''/usr/bin/cmake''"
    by code_simp
  have sel: "self_cmake_build_system ?p = Some ''foo''"
    by simp
  have ne: "''foo'' \<noteq> []"
    by simp
  have "fst ?b = Inr ?d"
    by code_simp
  then have b: "?b = (Inr ?d, snd ?b)"
    by (simp add: prod_eq_iff)
  have k: "''foo'' \<notin> set (keys ?d)"
    by (simp add: keys_def)
  have l: "''foo'' \<notin> set (keys legacy_build_systems)"
    by (simp add: keys_def legacy_build_systems_def)
  from unknown_generator_raises_key_error[OF f sel ne b k l,
      of variant0 "''/tmp/build''" "''/a/b''" True local]
  show ?thesis
    by (simp add: fresh_def)
qed

text \<open>
  C5. With a \<^verbatim>\<open>make_binary\<close> that is set and is not \<^verbatim>\<open>nmake\<close>, the build command is the
  make binary, then \<^verbatim>\<open>-j<N>\<close> for the thread count of the variant exactly when no child
  build arg starts with \<^verbatim>\<open>-j\<close>, then the child build args as they are; the build phase
  runs this very command.
\<close>

theorem make_binary_build_command:
  assumes "make_binary (self_settings slf) = Some m"
    and "m \<noteq> []"
    and "m \<noteq> ''nmake''"
  shows "make_cmd slf v exe bd =
           [m]
           @ (if list_ex (\<lambda>x. startswith x ''-j'') (or_empty (self_child_build_args slf)) then []
              else [''-j'' @ str_int (build_thread_count v)])
           @ or_empty (self_child_build_args slf)
       \<and> all_cmd s slf (make_cmd slf v exe bd) = make_cmd slf v exe bd"
  using assms by (simp add: make_cmd_def all_cmd_def Let_def)

theorem make_binary_build_command_witness:
  "make_cmd (plugin\<lparr>self_settings := rezconfig_cmake\<lparr>make_binary := Some ''make''\<rparr>\<rparr>)
     variant0 ''/usr/bin/cmake'' ''/tmp/build'' = [''make'', ''-j4'']
   \<and> make_cmd (plugin\<lparr>self_settings := rezconfig_cmake\<lparr>make_binary := Some ''make''\<rparr>,
                     self_child_build_args := Some [''-j8'', ''VERBOSE=1'']\<rparr>)
     variant0 ''/usr/bin/cmake'' ''/tmp/build'' = [''make'', ''-j8'', ''VERBOSE=1'']"
proof -
  let ?p = "plugin\<lparr>self_settings := rezconfig_cmake\<lparr>make_binary := Some ''make''\<rparr>\<rparr>"
  let ?q = "?p\<lparr>self_child_build_args := Some [''-j8'', ''VERBOSE=1'']\<rparr>"
  have n: "str_int (build_thread_count variant0) = ''4''"
    by code_simp
  have mp: "make_binary (self_settings ?p) = Some ''make''"
    and mq: "make_binary (self_settings ?q) = Some ''make''"
    by simp_all
  have ne: "''make'' \<noteq> []" and nn: "''make'' \<noteq> ''nmake''"
    by simp_all
  from make_binary_build_command[OF mp ne nn, of variant0 "''/usr/bin/cmake''" "''/tmp/build''"]
  have "make_cmd ?p variant0 ''/usr/bin/cmake'' ''/tmp/build'' = [''make'', ''-j4'']"
    by (simp add: n plugin_def)
  moreover
  from make_binary_build_command[OF mq ne nn, of variant0 "''/usr/bin/cmake''" "''/tmp/build''"]
  have "make_cmd ?q variant0 ''/usr/bin/cmake'' ''/tmp/build'' = [''make'', ''-j8'', ''VERBOSE=1'']"
    by (simp add: n plugin_def)
  ultimately show ?thesis by simp
qed

text \<open>
  C6. With \<^verbatim>\<open>write_build_scripts\<close> set and a configure phase that exits with 0,
  \<^verbatim>\<open>build\<close> returns success with the script path \<^verbatim>\<open>os.path.join(build_path, "build-env")\<close>,
  which is never empty and is the build path, a slash and \<^verbatim>\<open>build-env\<close> for a build path
  that is not empty and does not end in a slash; the only events are the configure
  command and the writing of the script, so no build and no install phase is run.
\<close>

theorem write_build_scripts_stops_after_configure:
  assumes "find_cmake s (Some ctx) = Inr exe"
    and "configure_cmd s slf exe install_path install build_type st = (Inr cmd, st1)"
    and "execute_shell ctx (events st) cmd (build_dir s slf build_path) = 0"
    and "self_write_build_scripts slf"
    and "bd = build_dir s slf build_path"
  shows "build s slf ctx v build_path install_path install build_type st =
           (Inr \<lparr>success = True, build_env_script = Some (path_join bd ''build-env'')\<rparr>,
            st1\<lparr>events := events st @
                   [Exec cmd bd,
                    ForwardingScript (path_join bd ''build-env'') (self_working_dir slf) bd
                      (variant_index v) install install_path]\<rparr>)
       \<and> path_join bd ''build-env'' \<noteq> []
       \<and> (bd \<noteq> [] \<and> last bd \<noteq> CHR ''/'' \<longrightarrow> path_join bd ''build-env'' = bd @ ''/build-env'')
       \<and> (abspath s build_path \<noteq> [] \<longrightarrow> bd = build_path)"
  using assms(3,4,5)
  by (simp add: build_after_configure(2)[OF assms(1,2)] Let_def path_join_def build_dir_def)

theorem write_build_scripts_stops_after_configure_witness:
  "fst (build (host help_text) (plugin\<lparr>self_write_build_scripts := True\<rparr>) (shell_with [])
          variant0 ''/tmp/build'' ''/a/b'' True local fresh)
     = Inr \<lparr>success = True, build_env_script = Some ''/tmp/build/build-env''\<rparr>
   \<and> events (snd (build (host help_text) (plugin\<lparr>self_write_build_scripts := True\<rparr>)
                    (shell_with []) variant0 ''/tmp/build'' ''/a/b'' True local fresh))
     = [Exec [''/usr/bin/cmake'', ''-d'', ''/src'', ''-Wno-dev'', ''-DCMAKE_INSTALL_PREFIX=/a/b'',
              ''-DCMAKE_MODULE_PATH=${CMAKE_MODULE_PATH}'', ''-DCMAKE_BUILD_TYPE=Release'',
              ''-DREZ_BUILD_TYPE=local'', ''-DREZ_BUILD_INSTALL=1''] ''/tmp/build'',
        ForwardingScript ''/tmp/build/build-env'' ''/src'' ''/tmp/build'' (Some 0) True ''/a/b'']"
proof -
  let ?cmd = "[''/usr/bin/cmake'', ''-d'', ''/src'', ''-Wno-dev'', ''-DCMAKE_INSTALL_PREFIX=/a/b'',
              ''-DCMAKE_MODULE_PATH=${CMAKE_MODULE_PATH}'', ''-DCMAKE_BUILD_TYPE=Release'',
              ''-DREZ_BUILD_TYPE=local'', ''-DREZ_BUILD_INSTALL=1'']"
  let ?p = "plugin\<lparr>self_write_build_scripts := True\<rparr>"
  let ?c = "configure_cmd (host help_text) ?p ''/usr/bin/cmake'' ''/a/b'' True local fresh"
  have f: "find_cmake (host help_text) (Some (shell_with [])) = Inr ''/usr/bin/cmake''"
    by code_simp
  have "fst ?c = Inr ?cmd"
    by code_simp
  then have c: "?c = (Inr ?cmd, snd ?c)"
    by (simp add: prod_eq_iff)
  have bd: "''/tmp/build'' = build_dir (host help_text) ?p ''/tmp/build''"
    by code_simp
  have r: "execute_shell (shell_with []) (events fresh) ?cmd
             (build_dir (host help_text) ?p ''/tmp/build'') = 0"
    by (simp add: shell_with_def)
  have w: "self_write_build_scripts ?p"
    by simp
  have j: "path_join ''/tmp/build'' ''build-env'' = ''/tmp/build/build-env''"
    by (simp add: path_join_def)
  from write_build_scripts_stops_after_configure[OF f c r w bd, of variant0] show ?thesis
    by (simp add: j fresh_def plugin_def variant0_def)
qed

text \<open>
  C8. After a configure phase that exits with 0, without \<^verbatim>\<open>write_build_scripts\<close>: the
  build phase runs \<^verbatim>\<open>all_cmd\<close>; the install phase runs exactly when the build phase exits
  with 0, an install was asked for and \<^verbatim>\<open>"install"\<close> is not an argument of the build
  command \<^verbatim>\<open>cmd\<close> (equivalently, of \<^verbatim>\<open>all_cmd\<close>); its command is \<^verbatim>\<open>cmd\<close> followed by
  \<^verbatim>\<open>--target install\<close> without a make binary and by \<^verbatim>\<open>install\<close> with one; and
  \<^verbatim>\<open>success\<close> says whether the last phase run exited with 0.
\<close>

theorem install_phase:
  assumes "find_cmake s (Some ctx) = Inr exe"
    and "configure_cmd s slf exe install_path install build_type st = (Inr cmd0, st1)"
    and "execute_shell ctx (events st) cmd0 (build_dir s slf build_path) = 0"
    and "\<not> self_write_build_scripts slf"
    and "bd = build_dir s slf build_path"
    and "cmd = make_cmd slf v exe bd"
    and "built = events st @ [Exec cmd0 bd, Exec (all_cmd s slf cmd) bd]"
    and "retcode = execute_shell ctx (events st @ [Exec cmd0 bd]) (all_cmd s slf cmd) bd"
  shows "build s slf ctx v build_path install_path install build_type st =
           (if retcode = 0 \<and> install \<and> ''install'' \<notin> set cmd
            then (Inr \<lparr>success = (execute_shell ctx built (install_cmd slf cmd) bd = 0),
                       build_env_script = None\<rparr>,
                  st1\<lparr>events := built @ [Exec (install_cmd slf cmd) bd]\<rparr>)
            else (Inr \<lparr>success = (retcode = 0), build_env_script = None\<rparr>,
                  st1\<lparr>events := built\<rparr>))
       \<and> install_cmd slf cmd =
           cmd @ (if truthy (make_binary (self_settings slf)) then [''install'']
                  else [''--target'', ''install''])
       \<and> (''install'' \<in> set (all_cmd s slf cmd) \<longleftrightarrow> ''install'' \<in> set cmd)"
  using assms(3-8)
  by (simp add: build_after_configure(2)[OF assms(1,2)] Let_def build_and_install_def
      run_shell_def install_cmd_def all_cmd_def)

theorem install_phase_witness:
  "fst (build (host help_text) plugin (shell_with [0, 0, 3]) variant0 ''/tmp/build'' ''/a/b''
          True local fresh)
     = Inr \<lparr>success = False, build_env_script = None\<rparr>
   \<and> events (snd (build (host help_text) plugin (shell_with [0, 0, 3]) variant0 ''/tmp/build''
                    ''/a/b'' True local fresh))
     = [Exec [''/usr/bin/cmake'', ''-d'', ''/src'', ''-Wno-dev'', ''-DCMAKE_INSTALL_PREFIX=/a/b'',
              ''-DCMAKE_MODULE_PATH=${CMAKE_MODULE_PATH}'', ''-DCMAKE_BUILD_TYPE=Release'',
              ''-DREZ_BUILD_TYPE=local'', ''-DREZ_BUILD_INSTALL=1''] ''/tmp/build'',
        Exec [''/usr/bin/cmake'', ''--build'', ''/tmp/build'', ''--target'', ''all''] ''/tmp/build'',
        Exec [''/usr/bin/cmake'', ''--build'', ''/tmp/build'', ''--target'', ''install'']
          ''/tmp/build'']"
proof -
  let ?conf = "[''/usr/bin/cmake'', ''-d'', ''/src'', ''-Wno-dev'', ''-DCMAKE_INSTALL_PREFIX=/a/b'',
              ''-DCMAKE_MODULE_PATH=${CMAKE_MODULE_PATH}'', ''-DCMAKE_BUILD_TYPE=Release'',
              ''-DREZ_BUILD_TYPE=local'', ''-DREZ_BUILD_INSTALL=1'']"
  let ?ctx = "shell_with [0, 0, 3]"
  let ?c = "configure_cmd (host help_text) plugin ''/usr/bin/cmake'' ''/a/b'' True local fresh"
  let ?cmd = "[''/usr/bin/cmake'', ''--build'', ''/tmp/build'']"
  let ?all = "[''/usr/bin/cmake'', ''--build'', ''/tmp/build'', ''--target'', ''all'']"
  have f: "find_cmake (host help_text) (Some ?ctx) = Inr ''/usr/bin/cmake''"
    by code_simp
  have "fst ?c = Inr ?conf"
    by code_simp
  then have c: "?c = (Inr ?conf, snd ?c)"
    by (simp add: prod_eq_iff)
  have bd: "''/tmp/build'' = build_dir (host help_text) plugin ''/tmp/build''"
    by code_simp
  have r: "execute_shell ?ctx (events fresh) ?conf
             (build_dir (host help_text) plugin ''/tmp/build'') = 0"
    by (simp add: shell_with_def fresh_def)
  have w: "\<not> self_write_build_scripts plugin"
    by (simp add: plugin_def)
  have m: "?cmd = make_cmd plugin variant0 ''/usr/bin/cmake'' ''/tmp/build''"
    by code_simp
  have a: "all_cmd (host help_text) plugin ?cmd = ?all"
    by code_simp
  have i: "install_cmd plugin ?cmd =
             [''/usr/bin/cmake'', ''--build'', ''/tmp/build'', ''--target'', ''install'']"
    by code_simp
  have built: "[Exec ?conf ''/tmp/build'', Exec ?all ''/tmp/build''] =
                 events fresh @ [Exec ?conf ''/tmp/build'',
                                 Exec (all_cmd (host help_text) plugin ?cmd) ''/tmp/build'']"
    by (simp add: a fresh_def)
  have rb: "0 = execute_shell ?ctx (events fresh @ [Exec ?conf ''/tmp/build''])
                  (all_cmd (host help_text) plugin ?cmd) ''/tmp/build''"
    by (simp add: shell_with_def fresh_def)
  have ri: "execute_shell ?ctx [Exec ?conf ''/tmp/build'', Exec ?all ''/tmp/build'']
              [''/usr/bin/cmake'', ''--build'', ''/tmp/build'', ''--target'', ''install'']
              ''/tmp/build'' = 3"
    by (simp add: shell_with_def)
  from install_phase[OF f c r w bd m built rb, THEN conjunct1] show ?thesis
    by (simp add: i ri)
qed

text \<open>
  C9 (amended). The claim says the vector holds no \<^verbatim>\<open>-G\<close> at all; but \<^verbatim>\<open>cmake_args\<close> and
  the extra build args are passed through as they are. What holds: without a selected
  generator the plugin adds no \<^verbatim>\<open>-G\<close> of its own, whatever default was discovered: the
  vector holds \<^verbatim>\<open>-G\<close> only if the tool path, the working directory, \<^verbatim>\<open>cmake_args\<close> or the
  extra build args do.
\<close>

theorem no_generator_flag_of_its_own:
  assumes "\<not> truthy (self_cmake_build_system slf)"
    and "configure_cmd s slf exe install_path install build_type st = (Inr cmd, st1)"
  shows "(''-G'' \<in> set cmd \<longleftrightarrow>
            ''-G'' \<in> set ([exe, self_working_dir slf]
                          @ or_empty (cmake_args (self_settings slf))
                          @ or_empty (self_build_args slf)))"
  using assms(1) by (auto simp: configure_cmd_result[OF assms(2)])

theorem no_generator_flag_of_its_own_witness:
  "''-G'' \<notin> set (projr (fst (configure_cmd (host help_text) plugin ''/usr/bin/cmake'' ''/a/b''
                                 False local fresh)))
   \<and> cls_default_build_system
        (snd (configure_cmd (host help_text) plugin ''/usr/bin/cmake'' ''/a/b'' False local fresh))
     = Some ''Ninja''"
proof -
  let ?c = "configure_cmd (host help_text) plugin ''/usr/bin/cmake'' ''/a/b'' False local fresh"
  have n: "\<not> truthy (self_cmake_build_system plugin)"
    by (simp add: plugin_def)
  have "\<not> isl (fst ?c)"
    by code_simp
  then have c: "?c = (Inr (projr (fst ?c)), snd ?c)"
    by (cases "fst ?c") (simp_all add: prod_eq_iff)
  have d: "cls_default_build_system (snd ?c) = Some ''Ninja''"
    by code_simp
  from no_generator_flag_of_its_own[OF n c] d show ?thesis
    by (simp add: plugin_def rezconfig_cmake_def)
qed

text \<open>The claim as stated fails when the extra build args carry a \<^verbatim>\<open>-G\<close>.\<close>

theorem generator_flag_passed_through_counterexample:
  "self_cmake_build_system (plugin\<lparr>self_build_args := Some [''-G'', ''Ninja'']\<rparr>) = None
   \<and> fst (configure_cmd (host help_text) (plugin\<lparr>self_build_args := Some [''-G'', ''Ninja'']\<rparr>)
          ''/usr/bin/cmake'' ''/a/b'' False local fresh)
     = Inr [''/usr/bin/cmake'', ''-d'', ''/src'', ''-Wno-dev'', ''-G'', ''Ninja'',
            ''-DCMAKE_INSTALL_PREFIX=/a/b'', ''-DCMAKE_MODULE_PATH=${CMAKE_MODULE_PATH}'',
            ''-DCMAKE_BUILD_TYPE=Release'', ''-DREZ_BUILD_TYPE=local'', ''-DREZ_BUILD_INSTALL=0'']"
  by code_simp

text \<open>
  C10. With \<^verbatim>\<open>make_binary = "nmake"\<close> the build command is the child build args and
  nothing else (empty when there are none): no executable, no \<^verbatim>\<open>-j\<close> flag, and the build
  phase adds no \<^verbatim>\<open>--target\<close> to it.
\<close>

theorem nmake_build_command:
  assumes "make_binary (self_settings slf) = Some ''nmake''"
  shows "make_cmd slf v exe bd = or_empty (self_child_build_args slf)
       \<and> all_cmd s slf (make_cmd slf v exe bd) = or_empty (self_child_build_args slf)"
  using assms by (simp add: make_cmd_def all_cmd_def Let_def)

theorem nmake_build_command_witness:
  "make_cmd (plugin\<lparr>self_settings := rezconfig_cmake\<lparr>make_binary := Some ''nmake''\<rparr>,
                   self_child_build_args := Some [''/NOLOGO'']\<rparr>)
     variant0 ''/usr/bin/cmake'' ''/tmp/build'' = [''/NOLOGO'']
   \<and> all_cmd (host help_text)
       (plugin\<lparr>self_settings := rezconfig_cmake\<lparr>make_binary := Some ''nmake''\<rparr>\<rparr>)
       (make_cmd (plugin\<lparr>self_settings := rezconfig_cmake\<lparr>make_binary := Some ''nmake''\<rparr>\<rparr>)
          variant0 ''/usr/bin/cmake'' ''/tmp/build'') = []"
proof -
  let ?p = "plugin\<lparr>self_settings := rezconfig_cmake\<lparr>make_binary := Some ''nmake''\<rparr>\<rparr>"
  let ?q = "?p\<lparr>self_child_build_args := Some [''/NOLOGO'']\<rparr>"
  have mp: "make_binary (self_settings ?p) = Some ''nmake''"
    and mq: "make_binary (self_settings ?q) = Some ''nmake''"
    by simp_all
  note a = nmake_build_command[OF mq, of variant0 "''/usr/bin/cmake''" "''/tmp/build''" "host help_text",
      THEN conjunct1]
  note b = nmake_build_command[OF mp, of variant0 "''/usr/bin/cmake''" "''/tmp/build''" "host help_text",
      THEN conjunct2]
  have "or_empty (self_child_build_args ?q) = [''/NOLOGO'']"
    and "or_empty (self_child_build_args ?p) = []"
    by (simp_all add: plugin_def)
  with a b show ?thesis
    by (simp only: simp_thms)
qed

end
